theory Spec2Isabelle
  imports Complex_Main "HOL-Library.Word" "HOL-Library.Sublist"
begin

section \<open>Fixed-point unit and arbitrary-precision division\<close>

text \<open>
  The ledgers of \<^verbatim>\<open>src/main.go\<close> (and of its two sibling revisions under
  \<^verbatim>\<open>src/unnamed\<close>) keep every quantity as a \<^verbatim>\<open>*big.Int\<close> scaled by
  \<^verbatim>\<open>basePrecision\<close>. A \<^verbatim>\<open>big.Int\<close> is an unbounded signed integer, so it is
  modelled by \<^typ>\<open>int\<close>.
\<close>

definition basePrecision :: int where
  "basePrecision = 1000000"

text \<open>
  \<^verbatim>\<open>(*big.Int).Div\<close> is Euclidean division: the remainder is never negative,
  whatever the signs. On a positive divisor that is HOL's \<open>div\<close>; on a negative
  divisor the quotient is the negated quotient by the absolute value. A zero divisor is
  a run-time panic, which \<open>big_Div\<close> reports as \<open>None\<close>.
\<close>

definition big_quot :: "int \<Rightarrow> int \<Rightarrow> int" where
  "big_quot x y = (if 0 < y then x div y else - (x div (- y)))"

definition big_Div :: "int \<Rightarrow> int \<Rightarrow> int option" where
  "big_Div x y = (if y = 0 then None else Some (big_quot x y))"

section \<open>Panics\<close>

text \<open>
  Every failure of the program is a Go panic. The model tells them apart by their cause:
  \<^item> \<open>InsufficientBalance\<close>: the explicit \<^verbatim>\<open>panic("Insufficient ... balance")\<close> calls;
  \<^item> \<open>DivisionByZero\<close>: \<^verbatim>\<open>Div\<close> by a zero \<^verbatim>\<open>big.Int\<close>;
  \<^item> \<open>InvalidOperation\<close>: \<^verbatim>\<open>panic("Can only claim from contract addresses")\<close>;
  \<^item> \<open>NilDereference\<close>: a method of \<^verbatim>\<open>big.Int\<close> reading a nil pointer, which is what
    a lookup of an absent key in a \<^verbatim>\<open>map[string]*big.Int\<close> yields.

  Go mutates the ledgers in place, so a panic leaves behind whatever was written before
  it. Every operation therefore returns the panic, if any, together with the state as it
  stands at that moment.
\<close>

datatype error = InsufficientBalance | DivisionByZero | InvalidOperation | NilDereference

section \<open>The two ledgers\<close>

text \<open>
  \<^verbatim>\<open>map[string]*big.Int\<close> is a partial map from addresses to integers: every entry the
  program stores is a freshly allocated \<^verbatim>\<open>big.Int\<close>, so no two keys share a
  pointer, and an absent key reads as nil. Amount arguments are values: the callers in
  the repository always pass a \<^verbatim>\<open>big.Int\<close> of their own, never an entry of a ledger.
  The field \<^verbatim>\<open>sharePrice\<close> that one revision adds to \<^verbatim>\<open>StockToken\<close> is read only by
  the display code and is left out.
\<close>

record StockToken =
  st_ticker :: string
  st_totalSupply :: int
  st_balances :: "string \<rightharpoonup> int"
  rebaseMultiplier :: int

record OndoWrappedStock =
  ow_ticker :: string
  ow_totalSupply :: int
  ow_balances :: "string \<rightharpoonup> int"
  exchangeRate :: int

record Dividend =
  cashAmount :: int
  sharePrice :: int

text \<open>
  The argument of \<^verbatim>\<open>Rebase\<close> is an \<^verbatim>\<open>interface{}\<close> examined by a type switch with
  the cases \<^verbatim>\<open>uint64\<close> and \<^verbatim>\<open>Dividend\<close> and no default; \<open>ActOther\<close> stands for a
  value of any other dynamic type.
\<close>

datatype action = ActUint64 "64 word" | ActDividend Dividend | ActOther

type_synonym ledgers = "StockToken \<times> OndoWrappedStock"

definition NewStockToken :: "string \<Rightarrow> StockToken" where
  "NewStockToken ticker =
     \<lparr>st_ticker = ticker, st_totalSupply = 0, st_balances = Map.empty, rebaseMultiplier = 1\<rparr>"

definition NewOndoWrappedStock :: "string \<Rightarrow> OndoWrappedStock" where
  "NewOndoWrappedStock ticker =
     \<lparr>ow_ticker = ''ow'' @ ticker, ow_totalSupply = 0, ow_balances = Map.empty,
      exchangeRate = basePrecision\<rparr>"

text \<open>
  \<open>orZero m k\<close> is the value the idiom
  \<^verbatim>\<open>if m[k] == nil { m[k] = big.NewInt(0) }\<close> leaves under \<open>k\<close>.
\<close>

definition orZero :: "(string \<rightharpoonup> int) \<Rightarrow> string \<Rightarrow> int" where
  "orZero m k = (case m k of None \<Rightarrow> 0 | Some v \<Rightarrow> v)"

section \<open>The rebasing ledger\<close>

text \<open>\<^verbatim>\<open>Mint\<close> converts its \<^verbatim>\<open>uint64\<close> share count with \<^verbatim>\<open>int64(shares)\<close>.\<close>

definition Mint :: "string \<Rightarrow> 64 word \<Rightarrow> StockToken \<Rightarrow> StockToken" where
  "Mint address shares t =
     (let amount = sint shares * basePrecision
      in t\<lparr>st_balances := (st_balances t)(address \<mapsto> orZero (st_balances t) address + amount),
           st_totalSupply := st_totalSupply t + amount\<rparr>)"

text \<open>
  \<^verbatim>\<open>Rebase\<close>: both loops range over the keys of the map and rewrite each entry from its
  own old value, so the result does not depend on the iteration order. The split
  multiplier is \<^verbatim>\<open>big.NewInt(int64(v))\<close>. The share ratio is divided by the dividend's
  share price before any balance is touched.
\<close>

fun Rebase :: "action \<Rightarrow> StockToken \<Rightarrow> error option \<times> StockToken" where
  "Rebase (ActUint64 v) t =
     (let multiplier = sint v
      in (None, t\<lparr>st_balances :=
                     (\<lambda>address. map_option (\<lambda>balance. balance * multiplier) (st_balances t address)),
                   rebaseMultiplier := multiplier\<rparr>))"
| "Rebase (ActDividend v) t =
     (case big_Div (basePrecision * cashAmount v) (sharePrice v) of
        None \<Rightarrow> (Some DivisionByZero, t)
      | Some shareRatio \<Rightarrow>
          (None, t\<lparr>st_balances :=
                     (\<lambda>address. map_option
                        (\<lambda>balance. balance + big_quot (balance * shareRatio) basePrecision)
                        (st_balances t address))\<rparr>))"
| "Rebase ActOther t = (None, t)"

section \<open>The wrapper ledger and the conversions\<close>

definition Wrap :: "string \<Rightarrow> int \<Rightarrow> ledgers \<Rightarrow> error option \<times> ledgers" where
  "Wrap from amount s =
     (case s of (st, ow) \<Rightarrow>
       (case st_balances st from of
          None \<Rightarrow> (Some NilDereference, s)
        | Some b \<Rightarrow>
            if b < amount then (Some InsufficientBalance, s)
            else
              (case big_Div (amount * basePrecision) (exchangeRate ow) of
                 None \<Rightarrow> (Some DivisionByZero, s)
               | Some owAmount \<Rightarrow>
                   (let m1 = (st_balances st)(from \<mapsto> b - amount);
                        m2 = m1(ow_ticker ow \<mapsto> orZero m1 (ow_ticker ow) + amount);
                        w1 = (ow_balances ow)(from \<mapsto> orZero (ow_balances ow) from + owAmount)
                    in (None, st\<lparr>st_balances := m2\<rparr>,
                        ow\<lparr>ow_balances := w1,
                           ow_totalSupply := ow_totalSupply ow + owAmount\<rparr>)))))"

text \<open>
  \<^verbatim>\<open>Unwrap\<close> of \<^verbatim>\<open>src/main.go\<close>: the holder is also the recipient. The wrapped tokens
  are burnt before the custody entry and the recipient's entry are read.
\<close>

definition Unwrap :: "string \<Rightarrow> int \<Rightarrow> ledgers \<Rightarrow> error option \<times> ledgers" where
  "Unwrap from owAmount s =
     (case s of (st, ow) \<Rightarrow>
       (case ow_balances ow from of
          None \<Rightarrow> (Some NilDereference, s)
        | Some wb \<Rightarrow>
            if wb < owAmount then (Some InsufficientBalance, s)
            else
              (let tslaAmount = big_quot (owAmount * exchangeRate ow) basePrecision;
                   ow' = ow\<lparr>ow_balances := (ow_balances ow)(from \<mapsto> wb - owAmount),
                            ow_totalSupply := ow_totalSupply ow - owAmount\<rparr>
               in (case st_balances st (ow_ticker ow) of
                     None \<Rightarrow> (Some NilDereference, st, ow')
                   | Some c \<Rightarrow>
                       (let m1 = (st_balances st)(ow_ticker ow \<mapsto> c - tslaAmount)
                        in (case m1 from of
                              None \<Rightarrow> (Some NilDereference, st\<lparr>st_balances := m1\<rparr>, ow')
                            | Some b \<Rightarrow>
                                (None, st\<lparr>st_balances := m1(from \<mapsto> b + tslaAmount)\<rparr>, ow')))))))"

text \<open>
  \<^verbatim>\<open>Unwrap\<close> of the revision that has \<^verbatim>\<open>Claim\<close> (\<^verbatim>\<open>src/unnamed/part_001\<close>): the
  wrapped tokens are always burnt from the address \<^verbatim>\<open>"0xCONTRACT"\<close>, a nil entry there
  is an insufficient balance, and the recipient's entry is created when absent.
\<close>

definition contractAddr :: string where
  "contractAddr = ''0xCONTRACT''"

definition Unwrap_part001 :: "string \<Rightarrow> int \<Rightarrow> ledgers \<Rightarrow> error option \<times> ledgers" where
  "Unwrap_part001 to owAmount s =
     (case s of (st, ow) \<Rightarrow>
       (case ow_balances ow contractAddr of
          None \<Rightarrow> (Some InsufficientBalance, s)
        | Some wb \<Rightarrow>
            if wb < owAmount then (Some InsufficientBalance, s)
            else
              (let tslaAmount = big_quot (owAmount * exchangeRate ow) basePrecision;
                   ow' = ow\<lparr>ow_balances := (ow_balances ow)(contractAddr \<mapsto> wb - owAmount),
                            ow_totalSupply := ow_totalSupply ow - owAmount\<rparr>
               in (case st_balances st (ow_ticker ow) of
                     None \<Rightarrow> (Some NilDereference, st, ow')
                   | Some c \<Rightarrow>
                       (let m1 = (st_balances st)(ow_ticker ow \<mapsto> c - tslaAmount)
                        in (None, st\<lparr>st_balances := m1(to \<mapsto> orZero m1 to + tslaAmount)\<rparr>,
                            ow'))))))"

definition UpdateExchangeRate :: "ledgers \<Rightarrow> error option \<times> ledgers" where
  "UpdateExchangeRate s =
     (case s of (tsla, ow) \<Rightarrow>
       if ow_totalSupply ow = 0 then (None, s)
       else
         (case st_balances tsla (ow_ticker ow) of
            None \<Rightarrow> (Some NilDereference, s)
          | Some c \<Rightarrow>
              (case big_Div (c * basePrecision) (ow_totalSupply ow) of
                 None \<Rightarrow> (Some DivisionByZero, s)
               | Some rate \<Rightarrow> (None, tsla, ow\<lparr>exchangeRate := rate\<rparr>))))"

definition Transfer :: "string \<Rightarrow> string \<Rightarrow> int \<Rightarrow> ledgers \<Rightarrow> error option \<times> ledgers" where
  "Transfer from to amount s =
     (case s of (st, ow) \<Rightarrow>
       (case ow_balances ow from of
          None \<Rightarrow> (Some NilDereference, s)
        | Some b \<Rightarrow>
            if b < amount then (Some InsufficientBalance, s)
            else
              (let m1 = (ow_balances ow)(to \<mapsto> orZero (ow_balances ow) to);
                   m2 = m1(from \<mapsto> orZero m1 from - amount);
                   m3 = m2(to \<mapsto> orZero m2 to + amount)
               in (None, st, ow\<lparr>ow_balances := m3\<rparr>))))"

text \<open>
  \<^verbatim>\<open>Interact\<close>: a recipient whose address starts with \<^verbatim>\<open>"0xCONTRACT"\<close> gets an
  auto-wrap, where the wrapped amount is computed a second time from the exchange rate;
  any other recipient gets a plain transfer inside the rebasing ledger.
\<close>

definition Interact :: "string \<Rightarrow> string \<Rightarrow> int \<Rightarrow> ledgers \<Rightarrow> error option \<times> ledgers" where
  "Interact from to amount s =
     (if prefix ''0xCONTRACT'' to then
        (case Wrap from amount s of
           (Some e, s1) \<Rightarrow> (Some e, s1)
         | (None, s1) \<Rightarrow>
             (case big_Div (amount * basePrecision) (exchangeRate (snd s1)) of
                None \<Rightarrow> (Some DivisionByZero, s1)
              | Some wrappedAmount \<Rightarrow> Transfer from to wrappedAmount s1))
      else
        (case s of (t, ows) \<Rightarrow>
          (case st_balances t from of
             None \<Rightarrow> (Some NilDereference, s)
           | Some b \<Rightarrow>
               if b < amount then (Some InsufficientBalance, s)
               else
                 (let m1 = (st_balances t)(to \<mapsto> orZero (st_balances t) to);
                      m2 = m1(from \<mapsto> orZero m1 from - amount);
                      m3 = m2(to \<mapsto> orZero m2 to + amount)
                  in (None, t\<lparr>st_balances := m3\<rparr>, ows)))))"

text \<open>
  \<^verbatim>\<open>Claim\<close> (\<^verbatim>\<open>src/unnamed/part_001\<close>): when the source has no wrapped entry the
  clamping branch is taken and hands the nil entry to \<^verbatim>\<open>formatTokens\<close>, whose
  \<^verbatim>\<open>Div\<close> reads it.
\<close>

definition Claim :: "string \<Rightarrow> string \<Rightarrow> int \<Rightarrow> ledgers \<Rightarrow> error option \<times> ledgers" where
  "Claim from to wrappedAmount s =
     (if \<not> prefix ''0xCONTRACT'' from then (Some InvalidOperation, s)
      else
        (case ow_balances (snd s) from of
           None \<Rightarrow> (Some NilDereference, s)
         | Some b \<Rightarrow> Unwrap_part001 to (if b < wrappedAmount then b else wrappedAmount) s))"

section \<open>Sequences of operations\<close>

text \<open>
  The calls a client can make, and a run of them from a pair of ledgers. A run stops at
  the first panic, with the state the panic leaves behind.
\<close>

datatype operation =
    OpMint string "64 word"
  | OpRebase action
  | OpWrap string int
  | OpUnwrap string int
  | OpUnwrap_part001 string int
  | OpUpdateExchangeRate
  | OpTransfer string string int
  | OpInteract string string int
  | OpClaim string string int

fun exec :: "operation \<Rightarrow> ledgers \<Rightarrow> error option \<times> ledgers" where
  "exec (OpMint address shares) s = (None, Mint address shares (fst s), snd s)"
| "exec (OpRebase act) s = (fst (Rebase act (fst s)), snd (Rebase act (fst s)), snd s)"
| "exec (OpWrap from amount) s = Wrap from amount s"
| "exec (OpUnwrap from owAmount) s = Unwrap from owAmount s"
| "exec (OpUnwrap_part001 to owAmount) s = Unwrap_part001 to owAmount s"
| "exec OpUpdateExchangeRate s = UpdateExchangeRate s"
| "exec (OpTransfer from to amount) s = Transfer from to amount s"
| "exec (OpInteract from to amount) s = Interact from to amount s"
| "exec (OpClaim from to wrappedAmount) s = Claim from to wrappedAmount s"

fun run :: "operation list \<Rightarrow> ledgers \<Rightarrow> error option \<times> ledgers" where
  "run [] s = (None, s)"
| "run (k # ks) s =
     (case exec k s of
        (None, s') \<Rightarrow> run ks s'
      | (Some e, s') \<Rightarrow> (Some e, s'))"

text \<open>The fresh pair of ledgers that \<^verbatim>\<open>main\<close> constructs.\<close>

definition fresh :: ledgers where
  "fresh = (NewStockToken ''TSLA'', NewOndoWrappedStock ''TSLA'')"

text \<open>
  The states \<^verbatim>\<open>main\<close> goes through: ten shares minted to \<^verbatim>\<open>0xREECE\<close>, five of them
  sent to \<^verbatim>\<open>0xCONTRACT\<close> through \<^verbatim>\<open>Interact\<close>, then the 2:1 split followed by the
  recomputation of the exchange rate.
\<close>

definition demo_minted :: ledgers where
  "demo_minted = snd (run [OpMint ''0xREECE'' 10] fresh)"

definition demo_interacted :: ledgers where
  "demo_interacted = snd (run [OpInteract ''0xREECE'' ''0xCONTRACT'' 5000000] demo_minted)"

definition demo_split :: ledgers where
  "demo_split = snd (run [OpRebase (ActUint64 2), OpUpdateExchangeRate] demo_interacted)"

text \<open>
  Two round trips of \<^verbatim>\<open>0xREECE\<close> after the split, at the exchange rate of two: one
  raw unit wrapped and the minted amount unwrapped again, and the same with three raw
  units.
\<close>

definition rt1_wrapped :: ledgers where
  "rt1_wrapped = snd (Wrap ''0xREECE'' 1 demo_split)"

definition rt1_unwrapped :: ledgers where
  "rt1_unwrapped =
     snd (Unwrap ''0xREECE'' (ow_totalSupply (snd rt1_wrapped) - ow_totalSupply (snd demo_split))
            rt1_wrapped)"

definition rt3_wrapped :: ledgers where
  "rt3_wrapped = snd (Wrap ''0xREECE'' 3 demo_split)"

definition rt3_unwrapped :: ledgers where
  "rt3_unwrapped =
     snd (Unwrap ''0xREECE'' (ow_totalSupply (snd rt3_wrapped) - ow_totalSupply (snd demo_split))
            rt3_wrapped)"

text \<open>
  The dividend of \<^verbatim>\<open>main\<close>: $1.50 on a share price of $100.00, in cents.
\<close>

definition demo_dividend :: Dividend where
  "demo_dividend = \<lparr>cashAmount = 150, sharePrice = 10000\<rparr>"

text \<open>
  Measuring a dividend. \<open>awarded t t' a\<close> is what the address \<open>a\<close> gained between the
  ledgers \<open>t\<close> and \<open>t'\<close>. \<open>truncationLoss v t t'\<close> is the shortfall of the awarded shares
  against the proportional amounts before truncation: the sum, over the entries of \<open>t\<close>,
  of \<open>balance * shareRatio / scale\<close> as a real number minus the shares awarded, where
  \<open>shareRatio\<close> is the fixed-point ratio \<open>scale * cashAmount div sharePrice\<close>.
\<close>

definition awarded :: "StockToken \<Rightarrow> StockToken \<Rightarrow> string \<Rightarrow> int" where
  "awarded t t' a = orZero (st_balances t') a - orZero (st_balances t) a"

definition truncationLoss :: "Dividend \<Rightarrow> StockToken \<Rightarrow> StockToken \<Rightarrow> real" where
  "truncationLoss v t t' =
     (\<Sum>a\<in>dom (st_balances t).
        real_of_int (orZero (st_balances t) a * ((basePrecision * cashAmount v) div sharePrice v))
          / real_of_int basePrecision
        - real_of_int (awarded t t' a))"



text \<open>
  The auto-wrap of \<^verbatim>\<open>main\<close> sent to a second contract address, \<^verbatim>\<open>0xCONTRACT_B\<close>.
\<close>

definition demo_other_contract :: ledgers where
  "demo_other_contract = snd (run [OpInteract ''0xREECE'' ''0xCONTRACT_B'' 5000000] demo_minted)"







section \<open>Arithmetic of the Euclidean quotient\<close>

lemmas ledger_defs =
  fresh_def demo_minted_def demo_interacted_def demo_split_def
  NewStockToken_def NewOndoWrappedStock_def Mint_def Wrap_def Unwrap_def Unwrap_part001_def
  UpdateExchangeRate_def Transfer_def Interact_def Claim_def contractAddr_def
  orZero_def big_Div_def big_quot_def basePrecision_def Let_def

lemma basePrecision_pos: "0 < basePrecision"
  by (simp add: basePrecision_def)

lemma big_quot_pos: "0 < y \<Longrightarrow> big_quot x y = x div y"
  by (simp add: big_quot_def)

lemma int_div_mult_le: "0 < (z::int) \<Longrightarrow> x div z * z \<le> x"
proof -
  assume z: "0 < z"
  have "x div z * z = x - x mod z" by (simp add: minus_mod_eq_div_mult)
  moreover from z have "0 \<le> x mod z" by simp
  ultimately show ?thesis by linarith
qed

lemma int_div_mult_eq_iff: "(x::int) div z * z = x \<longleftrightarrow> z dvd x"
  by (metis dvd_div_mult_self dvd_triv_right)

lemma big_quot_mult: "big_quot x y * y = (if 0 < y then x div y * y else x div (- y) * (- y))"
  by (simp add: big_quot_def)

text \<open>The remainder of a Euclidean division is never negative.\<close>

lemma big_quot_mult_le: "y \<noteq> 0 \<Longrightarrow> big_quot x y * y \<le> x"
proof (cases "0 < y")
  case True
  then show ?thesis by (simp only: big_quot_mult if_True int_div_mult_le)
next
  case False
  assume "y \<noteq> 0"
  with False have "0 < - y" by simp
  then have "x div (- y) * (- y) \<le> x" by (rule int_div_mult_le)
  with False show ?thesis by (simp only: big_quot_mult if_False)
qed

lemma big_quot_exact_iff: "y \<noteq> 0 \<Longrightarrow> big_quot x y * y = x \<longleftrightarrow> y dvd x"
proof (cases "0 < y")
  case True
  then show ?thesis by (simp only: big_quot_mult if_True int_div_mult_eq_iff)
next
  case False
  have "x div (- y) * (- y) = x \<longleftrightarrow> - y dvd x" by (rule int_div_mult_eq_iff)
  also have "\<dots> \<longleftrightarrow> y dvd x" by simp
  finally show ?thesis using False by (simp only: big_quot_mult if_False)
qed

text \<open>
  Wrapping \<open>a\<close> at the rate \<open>r\<close> and unwrapping the result at the same rate: the second
  quotient is at most \<open>a\<close>, and it is \<open>a\<close> exactly when the first division left no
  remainder.
\<close>

lemma round_trip_arith:
  fixes a r :: int
  assumes r: "r \<noteq> 0"
    and w: "w = big_quot (a * basePrecision) r"
    and u0: "u = big_quot (w * r) basePrecision"
  shows "u \<le> a \<and> (u = a \<longleftrightarrow> r dvd a * basePrecision) \<and> (u = a \<longrightarrow> basePrecision dvd w * r)"
proof -
  note S = basePrecision_pos
  have le: "w * r \<le> a * basePrecision"
    unfolding w using r by (rule big_quot_mult_le)
  have u: "u = (w * r) div basePrecision"
    unfolding u0 using S by (rule big_quot_pos)
  have "(w * r) div basePrecision \<le> (a * basePrecision) div basePrecision"
    using le S by (rule zdiv_mono1)
  moreover have "(a * basePrecision) div basePrecision = a" using S by simp
  ultimately have ule: "u \<le> a" using u by simp
  have ex: "w * r = a * basePrecision \<longleftrightarrow> r dvd a * basePrecision"
    unfolding w using r by (rule big_quot_exact_iff)
  have iff: "u = a \<longleftrightarrow> r dvd a * basePrecision"
  proof
    assume "u = a"
    have "(w * r) div basePrecision * basePrecision \<le> w * r"
      using S by (rule int_div_mult_le)
    with u \<open>u = a\<close> have "a * basePrecision \<le> w * r" by simp
    with le ex show "r dvd a * basePrecision" by simp
  next
    assume "r dvd a * basePrecision"
    with ex have "w * r = a * basePrecision" by simp
    with u S show "u = a" by simp
  qed
  have "u = a \<longrightarrow> basePrecision dvd w * r"
  proof
    assume "u = a"
    with iff ex have "w * r = a * basePrecision" by simp
    then show "basePrecision dvd w * r" by simp
  qed
  with ule iff show ?thesis by blast
qed

section \<open>What a successful call has done\<close>

lemma Wrap_success:
  assumes "Wrap from a (st, ow) = (None, st1, ow1)"
  shows "\<exists>b. st_balances st from = Some b \<and> a \<le> b \<and> exchangeRate ow \<noteq> 0
     \<and> st1 = st\<lparr>st_balances := (let m1 = (st_balances st)(from \<mapsto> b - a)
                                 in m1(ow_ticker ow \<mapsto> orZero m1 (ow_ticker ow) + a))\<rparr>
     \<and> ow1 = ow\<lparr>ow_balances := (ow_balances ow)(from \<mapsto> orZero (ow_balances ow) from
                                       + big_quot (a * basePrecision) (exchangeRate ow)),
                 ow_totalSupply := ow_totalSupply ow + big_quot (a * basePrecision) (exchangeRate ow)\<rparr>"
  using assms
  by (auto simp add: Wrap_def big_Div_def Let_def split: option.splits if_splits)

lemma Unwrap_success:
  assumes "Unwrap from w (st, ow) = (None, st2, ow2)"
  shows "\<exists>wb c. ow_balances ow from = Some wb \<and> w \<le> wb \<and> st_balances st (ow_ticker ow) = Some c
     \<and> st2 = st\<lparr>st_balances :=
          (let m1 = (st_balances st)(ow_ticker ow \<mapsto> c - big_quot (w * exchangeRate ow) basePrecision)
           in m1(from \<mapsto> orZero m1 from + big_quot (w * exchangeRate ow) basePrecision))\<rparr>
     \<and> ow2 = ow\<lparr>ow_balances := (ow_balances ow)(from \<mapsto> wb - w),
                 ow_totalSupply := ow_totalSupply ow - w\<rparr>"
  using assms
  by (auto simp add: Unwrap_def Let_def orZero_def split: option.splits if_splits)

text \<open>The states of \<^verbatim>\<open>main\<close>, evaluated.\<close>

lemma demo_minted_eval: "demo_minted =
  (\<lparr>st_ticker = ''TSLA'', st_totalSupply = 10000000,
    st_balances = [''0xREECE'' \<mapsto> 10000000], rebaseMultiplier = 1\<rparr>,
   \<lparr>ow_ticker = ''owTSLA'', ow_totalSupply = 0,
    ow_balances = Map.empty, exchangeRate = 1000000\<rparr>)"
  by (simp add: ledger_defs fun_eq_iff)

lemma demo_interacted_eval: "demo_interacted =
  (\<lparr>st_ticker = ''TSLA'', st_totalSupply = 10000000,
    st_balances = [''0xREECE'' \<mapsto> 5000000, ''owTSLA'' \<mapsto> 5000000], rebaseMultiplier = 1\<rparr>,
   \<lparr>ow_ticker = ''owTSLA'', ow_totalSupply = 5000000,
    ow_balances = [''0xREECE'' \<mapsto> 0, ''0xCONTRACT'' \<mapsto> 5000000], exchangeRate = 1000000\<rparr>)"
  by (simp add: ledger_defs fun_eq_iff)

lemma demo_split_eval: "demo_split =
  (\<lparr>st_ticker = ''TSLA'', st_totalSupply = 10000000,
    st_balances = [''0xREECE'' \<mapsto> 10000000, ''owTSLA'' \<mapsto> 10000000], rebaseMultiplier = 2\<rparr>,
   \<lparr>ow_ticker = ''owTSLA'', ow_totalSupply = 5000000,
    ow_balances = [''0xREECE'' \<mapsto> 0, ''0xCONTRACT'' \<mapsto> 5000000], exchangeRate = 2000000\<rparr>)"
  by (simp add: ledger_defs fun_eq_iff)

section \<open>Rebase on an unknown action\<close>

text \<open>
  C10. An action that is neither a \<^verbatim>\<open>uint64\<close> split multiplier nor a \<^verbatim>\<open>Dividend\<close>
  matches no case of the type switch: \<^verbatim>\<open>Rebase\<close> raises no panic and returns the ledger
  as it was, so the total supply, the rebase multiplier and every balance are unchanged.
\<close>

theorem Rebase_unknown_action_noop:
  "Rebase ActOther t = (None, t)
   \<and> st_totalSupply (snd (Rebase ActOther t)) = st_totalSupply t
   \<and> rebaseMultiplier (snd (Rebase ActOther t)) = rebaseMultiplier t
   \<and> st_balances (snd (Rebase ActOther t)) = st_balances t"
  by simp

section \<open>Wrap followed by unwrap\<close>

text \<open>
  C1 (as amended). Let \<^verbatim>\<open>Wrap(from, a)\<close> succeed, let \<open>w\<close> be the wrapped amount it
  minted (the growth of the wrapper's total supply) and let \<^verbatim>\<open>Unwrap(from, w)\<close> succeed
  as well. Then \<open>w\<close> is the Euclidean quotient of \<open>a * scale\<close> by the exchange rate, the
  unwrap moves \<open>u = w * rate div scale\<close> underlying units from the custody entry to the
  sender, \<open>u\<close> is at most \<open>a\<close>, the loss \<open>a - u\<close> is not negative, and \<open>u = a\<close> holds
  exactly when the exchange rate divides \<open>a * scale\<close>, that is when the first division
  is exact; in that case the scale factor divides the second product \<open>w * rate\<close>. The
  sender's balance after the round trip never exceeds the balance before it.
\<close>

theorem Wrap_Unwrap_round_trip:
  assumes W: "Wrap from a s = (None, s1)"
    and w: "w = ow_totalSupply (snd s1) - ow_totalSupply (snd s)"
    and U: "Unwrap from w s1 = (None, s2)"
    and u: "u = big_quot (w * exchangeRate (snd s1)) basePrecision"
  shows "w = big_quot (a * basePrecision) (exchangeRate (snd s))
     \<and> st_balances (fst s2) =
         (let m = (st_balances (fst s1))
                    (ow_ticker (snd s) \<mapsto> orZero (st_balances (fst s1)) (ow_ticker (snd s)) - u)
          in m(from \<mapsto> orZero m from + u))
     \<and> u \<le> a \<and> 0 \<le> a - u
     \<and> (u = a \<longleftrightarrow> exchangeRate (snd s) dvd a * basePrecision)
     \<and> (u = a \<longrightarrow> basePrecision dvd w * exchangeRate (snd s))
     \<and> orZero (st_balances (fst s2)) from \<le> orZero (st_balances (fst s)) from"
proof -
  obtain st ow where s: "s = (st, ow)" by (cases s)
  obtain st1 ow1 where s1: "s1 = (st1, ow1)" by (cases s1)
  obtain st2 ow2 where s2: "s2 = (st2, ow2)" by (cases s2)
  from W s s1 have W': "Wrap from a (st, ow) = (None, st1, ow1)" by simp
  from U s1 s2 have U': "Unwrap from w (st1, ow1) = (None, st2, ow2)" by simp
  from Wrap_success [OF W'] obtain b where b: "st_balances st from = Some b" "a \<le> b"
    and r: "exchangeRate ow \<noteq> 0"
    and st1: "st1 = st\<lparr>st_balances := (let m1 = (st_balances st)(from \<mapsto> b - a)
                                 in m1(ow_ticker ow \<mapsto> orZero m1 (ow_ticker ow) + a))\<rparr>"
    and ow1: "ow1 = ow\<lparr>ow_balances := (ow_balances ow)(from \<mapsto> orZero (ow_balances ow) from
                                       + big_quot (a * basePrecision) (exchangeRate ow)),
                 ow_totalSupply := ow_totalSupply ow + big_quot (a * basePrecision) (exchangeRate ow)\<rparr>"
    by blast
  from ow1 w s s1 have w': "w = big_quot (a * basePrecision) (exchangeRate ow)" by simp
  from ow1 have rate: "exchangeRate ow1 = exchangeRate ow" and tk: "ow_ticker ow1 = ow_ticker ow"
    by simp_all
  from u rate s1 have u': "u = big_quot (w * exchangeRate ow) basePrecision" by simp
  from round_trip_arith [OF r w' u']
  have ar: "u \<le> a" "u = a \<longleftrightarrow> exchangeRate ow dvd a * basePrecision"
    "u = a \<longrightarrow> basePrecision dvd w * exchangeRate ow" by blast+
  from Unwrap_success [OF U'] obtain wb c where
    c: "st_balances st1 (ow_ticker ow1) = Some c"
    and st2: "st2 = st1\<lparr>st_balances :=
          (let m1 = (st_balances st1)(ow_ticker ow1 \<mapsto> c - big_quot (w * exchangeRate ow1) basePrecision)
           in m1(from \<mapsto> orZero m1 from + big_quot (w * exchangeRate ow1) basePrecision))\<rparr>"
    by blast
  from c tk have oz: "orZero (st_balances st1) (ow_ticker ow) = c" by (simp add: orZero_def)
  from st2 u s1 tk oz have bal2: "st_balances st2 =
         (let m = (st_balances st1)(ow_ticker ow \<mapsto> orZero (st_balances st1) (ow_ticker ow) - u)
          in m(from \<mapsto> orZero m from + u))" by simp
  have net: "orZero (st_balances st2) from \<le> orZero (st_balances st) from"
    using bal2 st1 b ar(1) by (auto simp add: Let_def orZero_def)
  from w' bal2 ar net s s1 s2 show ?thesis by simp
qed

lemma rt3_wrapped_eval: "Wrap ''0xREECE'' 3 demo_split = (None, rt3_wrapped)
  \<and> ow_totalSupply (snd rt3_wrapped) - ow_totalSupply (snd demo_split) = 1
  \<and> exchangeRate (snd rt3_wrapped) = 2000000"
  by (simp add: rt3_wrapped_def demo_split_eval) (simp add: ledger_defs)

lemma rt3_unwrapped_eval: "Unwrap ''0xREECE'' 1 rt3_wrapped = (None, rt3_unwrapped)"
  by (simp add: rt3_unwrapped_def rt3_wrapped_def demo_split_eval) (simp add: ledger_defs)

text \<open>
  Three raw units wrapped at the rate of two mint one wrapped unit, which unwraps to two:
  one raw unit is lost, and the rate does not divide \<open>3 * scale\<close>.
\<close>

theorem Wrap_Unwrap_round_trip_witness:
  "Wrap ''0xREECE'' 3 demo_split = (None, rt3_wrapped)
   \<and> Unwrap ''0xREECE'' 1 rt3_wrapped = (None, rt3_unwrapped)
   \<and> (2::int) = big_quot (1 * exchangeRate (snd rt3_wrapped)) basePrecision
   \<and> (2::int) \<le> 3
   \<and> \<not> exchangeRate (snd demo_split) dvd 3 * basePrecision
   \<and> orZero (st_balances (fst rt3_unwrapped)) ''0xREECE''
       \<le> orZero (st_balances (fst demo_split)) ''0xREECE''"
proof -
  have W: "Wrap ''0xREECE'' 3 demo_split = (None, rt3_wrapped)"
    and w: "1 = ow_totalSupply (snd rt3_wrapped) - ow_totalSupply (snd demo_split)"
    and r: "exchangeRate (snd rt3_wrapped) = 2000000"
    using rt3_wrapped_eval by simp_all
  have U: "Unwrap ''0xREECE'' 1 rt3_wrapped = (None, rt3_unwrapped)"
    by (rule rt3_unwrapped_eval)
  have u: "(2::int) = big_quot (1 * exchangeRate (snd rt3_wrapped)) basePrecision"
    by (simp add: r big_quot_def basePrecision_def)
  note T = Wrap_Unwrap_round_trip [OF W w U u]
  from T have "((2::int) = 3) = (exchangeRate (snd demo_split) dvd 3 * basePrecision)"
    by blast
  then have nd: "\<not> exchangeRate (snd demo_split) dvd 3 * basePrecision" by simp
  from T have net: "orZero (st_balances (fst rt3_unwrapped)) ''0xREECE''
       \<le> orZero (st_balances (fst demo_split)) ''0xREECE''" by blast
  have "(2::int) \<le> 3" by simp
  with W U u nd net show ?thesis by blast
qed

text \<open>
  The claim as the specification words it, with equality exactly when the scale factor
  divides the intermediate products, fails right after the 2:1 split of \<^verbatim>\<open>main\<close>: one
  raw unit wraps to nothing and nothing comes back, although the scale factor divides
  both products.
\<close>

theorem Wrap_Unwrap_scale_divides_counterexample:
  "Wrap ''0xREECE'' 1 demo_split = (None, rt1_wrapped)
   \<and> ow_totalSupply (snd rt1_wrapped) - ow_totalSupply (snd demo_split) = 0
   \<and> Unwrap ''0xREECE'' 0 rt1_wrapped = (None, rt1_unwrapped)
   \<and> \<not> (orZero (st_balances (fst rt1_unwrapped)) ''0xREECE''
          - orZero (st_balances (fst rt1_wrapped)) ''0xREECE'' = 1
        \<longleftrightarrow> basePrecision dvd 1 * basePrecision
            \<and> basePrecision dvd 0 * exchangeRate (snd demo_split))"
  by (simp add: rt1_unwrapped_def rt1_wrapped_def demo_split_eval) (simp add: ledger_defs)

section \<open>Cash dividends\<close>

lemma truncation_fraction:
  assumes "0 < (d::int)"
  shows "0 \<le> real_of_int x / real_of_int d - real_of_int (x div d)"
    and "real_of_int x / real_of_int d - real_of_int (x div d) < 1"
proof -
  show "0 \<le> real_of_int x / real_of_int d - real_of_int (x div d)"
    by (rule real_of_int_div2)
  have "x < (x div d + 1) * d"
  proof -
    have e: "(x div d + 1) * d = x div d * d + d" by (simp add: algebra_simps)
    have "x div d * d + x mod d = x" by simp
    moreover from assms have "x mod d < d" by simp
    ultimately show ?thesis unfolding e by linarith
  qed
  then have "real_of_int x < real_of_int ((x div d + 1) * d)"
    by (simp only: of_int_less_iff)
  then have "real_of_int x < (real_of_int (x div d) + 1) * real_of_int d" by simp
  with assms have "real_of_int x / real_of_int d < real_of_int (x div d) + 1"
    by (simp add: pos_divide_less_eq)
  then show "real_of_int x / real_of_int d - real_of_int (x div d) < 1" by simp
qed

lemma Rebase_dividend_result:
  assumes "0 < sharePrice v"
  shows "Rebase (ActDividend v) t =
    (None, t\<lparr>st_balances := (\<lambda>address. map_option
        (\<lambda>balance. balance + balance * ((basePrecision * cashAmount v) div sharePrice v) div basePrecision)
        (st_balances t address))\<rparr>)"
  using assms basePrecision_pos by (simp add: big_Div_def big_quot_def)

lemma awarded_dividend:
  assumes "0 < sharePrice v" and "a \<in> dom (st_balances t)"
  shows "awarded t (snd (Rebase (ActDividend v) t)) a =
     orZero (st_balances t) a * ((basePrecision * cashAmount v) div sharePrice v) div basePrecision"
  using assms(2) unfolding Rebase_dividend_result [OF assms(1)]
  by (auto simp add: awarded_def orZero_def)

text \<open>
  C2 (as amended). With a positive share price the dividend raises no panic, replaces
  each existing balance \<open>b\<close> by \<open>b + b * (scale * cashAmount div sharePrice) div scale\<close>,
  adds and removes no entry and leaves the total supply and the rebase multiplier as
  they were. The truncation loss is never negative, and on a ledger with at least one
  entry it is strictly less than the number of entries.
\<close>

theorem Rebase_dividend_distribution:
  assumes "0 < sharePrice v"
  shows "fst (Rebase (ActDividend v) t) = None
    \<and> (\<forall>a b. st_balances t a = Some b \<longrightarrow>
          st_balances (snd (Rebase (ActDividend v) t)) a =
            Some (b + b * ((basePrecision * cashAmount v) div sharePrice v) div basePrecision))
    \<and> dom (st_balances (snd (Rebase (ActDividend v) t))) = dom (st_balances t)
    \<and> st_totalSupply (snd (Rebase (ActDividend v) t)) = st_totalSupply t
    \<and> rebaseMultiplier (snd (Rebase (ActDividend v) t)) = rebaseMultiplier t
    \<and> 0 \<le> truncationLoss v t (snd (Rebase (ActDividend v) t))
    \<and> (finite (dom (st_balances t)) \<and> dom (st_balances t) \<noteq> {} \<longrightarrow>
          truncationLoss v t (snd (Rebase (ActDividend v) t))
            < real (card (dom (st_balances t))))"
proof -
  let ?t' = "snd (Rebase (ActDividend v) t)"
  let ?r = "(basePrecision * cashAmount v) div sharePrice v"
  let ?f = "\<lambda>a. real_of_int (orZero (st_balances t) a * ?r) / real_of_int basePrecision
        - real_of_int (awarded t ?t' a)"
  note R = Rebase_dividend_result [OF assms, of t]
  have ok: "fst (Rebase (ActDividend v) t) = None" unfolding R by simp
  have bal: "\<forall>a b. st_balances t a = Some b \<longrightarrow>
          st_balances ?t' a = Some (b + b * ?r div basePrecision)"
    unfolding R by simp
  have dm: "dom (st_balances ?t') = dom (st_balances t)"
    unfolding R by (auto simp add: dom_def)
  have sup: "st_totalSupply ?t' = st_totalSupply t" and mul: "rebaseMultiplier ?t' = rebaseMultiplier t"
    unfolding R by simp_all
  have each: "0 \<le> ?f a \<and> ?f a < 1" if "a \<in> dom (st_balances t)" for a
  proof -
    have aw: "awarded t ?t' a = orZero (st_balances t) a * ?r div basePrecision"
      by (rule awarded_dividend [OF assms that])
    show ?thesis
      unfolding aw
      using truncation_fraction [OF basePrecision_pos, of "orZero (st_balances t) a * ?r"]
      by blast
  qed
  have loss: "truncationLoss v t ?t' = sum ?f (dom (st_balances t))"
    by (simp add: truncationLoss_def)
  have nonneg: "0 \<le> truncationLoss v t ?t'"
    unfolding loss by (rule sum_nonneg) (use each in blast)
  have bound: "truncationLoss v t ?t' < real (card (dom (st_balances t)))"
    if fin: "finite (dom (st_balances t))" and ne: "dom (st_balances t) \<noteq> {}"
  proof -
    have "sum ?f (dom (st_balances t)) < sum (\<lambda>a. 1) (dom (st_balances t))"
      using fin ne by (rule sum_strict_mono) (use each in blast)
    then show ?thesis unfolding loss by simp
  qed
  from ok bal dm sup mul nonneg bound show ?thesis by blast
qed

lemma rt3_unwrapped_ledger: "fst rt3_unwrapped =
  \<lparr>st_ticker = ''TSLA'', st_totalSupply = 10000000,
   st_balances = [''0xREECE'' \<mapsto> 9999999, ''owTSLA'' \<mapsto> 10000001], rebaseMultiplier = 2\<rparr>"
  by (simp add: rt3_unwrapped_def rt3_wrapped_def demo_split_eval) (simp add: ledger_defs fun_eq_iff)

text \<open>
  The dividend of \<^verbatim>\<open>main\<close> on the ledger left by the round trip of three raw units:
  \<^verbatim>\<open>0xREECE\<close> holds 9999999 and is awarded 149999, and the loss over the two entries
  stays below two.
\<close>

theorem Rebase_dividend_distribution_witness:
  "0 < sharePrice demo_dividend
   \<and> fst (Rebase (ActDividend demo_dividend) (fst rt3_unwrapped)) = None
   \<and> st_balances (fst rt3_unwrapped) ''0xREECE'' = Some 9999999
   \<and> st_balances (snd (Rebase (ActDividend demo_dividend) (fst rt3_unwrapped))) ''0xREECE''
       = Some 10149998
   \<and> finite (dom (st_balances (fst rt3_unwrapped)))
   \<and> dom (st_balances (fst rt3_unwrapped)) \<noteq> {}
   \<and> card (dom (st_balances (fst rt3_unwrapped))) = 2
   \<and> truncationLoss demo_dividend (fst rt3_unwrapped)
         (snd (Rebase (ActDividend demo_dividend) (fst rt3_unwrapped)))
       < real (card (dom (st_balances (fst rt3_unwrapped))))"
proof -
  have p: "0 < sharePrice demo_dividend" by (simp add: demo_dividend_def)
  have b: "st_balances (fst rt3_unwrapped) ''0xREECE'' = Some 9999999"
    by (simp add: rt3_unwrapped_ledger)
  have d: "dom (st_balances (fst rt3_unwrapped)) = {''0xREECE'', ''owTSLA''}"
    by (auto simp add: rt3_unwrapped_ledger)
  have fin: "finite (dom (st_balances (fst rt3_unwrapped)))"
    and ne: "dom (st_balances (fst rt3_unwrapped)) \<noteq> {}"
    and c: "card (dom (st_balances (fst rt3_unwrapped))) = 2"
    by (simp_all add: d)
  note T = Rebase_dividend_distribution [OF p, of "fst rt3_unwrapped"]
  from T have ok: "fst (Rebase (ActDividend demo_dividend) (fst rt3_unwrapped)) = None"
    by blast
  from T b have "st_balances (snd (Rebase (ActDividend demo_dividend) (fst rt3_unwrapped))) ''0xREECE''
       = Some (9999999 + 9999999 * ((basePrecision * cashAmount demo_dividend)
                   div sharePrice demo_dividend) div basePrecision)"
    by blast
  then have b': "st_balances (snd (Rebase (ActDividend demo_dividend) (fst rt3_unwrapped))) ''0xREECE''
       = Some 10149998"
    by (simp add: demo_dividend_def basePrecision_def)
  from T fin ne have l: "truncationLoss demo_dividend (fst rt3_unwrapped)
         (snd (Rebase (ActDividend demo_dividend) (fst rt3_unwrapped)))
       < real (card (dom (st_balances (fst rt3_unwrapped))))"
    by blast
  from p ok b b' fin ne c l show ?thesis by blast
qed

text \<open>
  On a ledger without entries the loss is zero, which is not strictly less than the
  number of entries.
\<close>

theorem Rebase_dividend_empty_ledger_counterexample:
  "0 < sharePrice demo_dividend
   \<and> fst (Rebase (ActDividend demo_dividend) (NewStockToken ''TSLA'')) = None
   \<and> \<not> truncationLoss demo_dividend (NewStockToken ''TSLA'')
           (snd (Rebase (ActDividend demo_dividend) (NewStockToken ''TSLA'')))
         < real (card (dom (st_balances (NewStockToken ''TSLA''))))"
  by (simp add: truncationLoss_def NewStockToken_def demo_dividend_def big_Div_def)

section \<open>A refused call changes nothing\<close>

lemma Transfer_refused:
  "fst (Transfer from to a s) \<in> {Some InsufficientBalance, Some DivisionByZero, Some InvalidOperation}
   \<Longrightarrow> snd (Transfer from to a s) = s"
  by (cases s) (auto simp add: Transfer_def Let_def split: option.splits if_splits)

lemma Interact_transfer_refused:
  "\<not> prefix ''0xCONTRACT'' to \<Longrightarrow>
   fst (Interact from to a s) \<in> {Some InsufficientBalance, Some DivisionByZero, Some InvalidOperation}
   \<Longrightarrow> snd (Interact from to a s) = s"
  by (cases s) (auto simp add: Interact_def Let_def split: option.splits if_splits)

lemma Wrap_refused:
  "fst (Wrap from a s) \<in> {Some InsufficientBalance, Some DivisionByZero, Some InvalidOperation}
   \<Longrightarrow> snd (Wrap from a s) = s"
  by (cases s) (auto simp add: Wrap_def Let_def split: option.splits if_splits)

lemma Unwrap_refused:
  "fst (Unwrap from w s) \<in> {Some InsufficientBalance, Some DivisionByZero, Some InvalidOperation}
   \<Longrightarrow> snd (Unwrap from w s) = s"
  by (cases s) (auto simp add: Unwrap_def Let_def split: option.splits if_splits)

lemma Unwrap_part001_refused:
  "fst (Unwrap_part001 to w s) \<in> {Some InsufficientBalance, Some DivisionByZero, Some InvalidOperation}
   \<Longrightarrow> snd (Unwrap_part001 to w s) = s"
  by (cases s) (auto simp add: Unwrap_part001_def Let_def split: option.splits if_splits)

lemma Claim_refused:
  "fst (Claim from to w s) \<in> {Some InsufficientBalance, Some DivisionByZero, Some InvalidOperation}
   \<Longrightarrow> snd (Claim from to w s) = s"
  using Unwrap_part001_refused [of to _ s]
  by (auto simp add: Claim_def split: option.splits if_splits)

lemma Rebase_refused:
  "fst (Rebase act t) \<in> {Some InsufficientBalance, Some DivisionByZero, Some InvalidOperation}
   \<Longrightarrow> snd (Rebase act t) = t"
  by (cases act) (auto simp add: Let_def split: option.splits)

text \<open>
  C5. Whenever a transfer (inside the wrapper ledger, or the plain transfer of
  \<^verbatim>\<open>Interact\<close> inside the rebasing ledger), a wrap, an unwrap (of either revision), a
  claim or a dividend panics for an insufficient balance, for a division by zero (a zero
  share price, a zero exchange rate) or for a claim from an address that is not a
  contract, both ledgers are exactly as they were before the call.
\<close>

theorem refused_call_changes_nothing:
  "(fst (Transfer from to a s) \<in> {Some InsufficientBalance, Some DivisionByZero, Some InvalidOperation}
      \<longrightarrow> snd (Transfer from to a s) = s)
   \<and> (\<not> prefix ''0xCONTRACT'' to
      \<and> fst (Interact from to a s) \<in> {Some InsufficientBalance, Some DivisionByZero, Some InvalidOperation}
      \<longrightarrow> snd (Interact from to a s) = s)
   \<and> (fst (Wrap from a s) \<in> {Some InsufficientBalance, Some DivisionByZero, Some InvalidOperation}
      \<longrightarrow> snd (Wrap from a s) = s)
   \<and> (fst (Unwrap from a s) \<in> {Some InsufficientBalance, Some DivisionByZero, Some InvalidOperation}
      \<longrightarrow> snd (Unwrap from a s) = s)
   \<and> (fst (Unwrap_part001 to a s) \<in> {Some InsufficientBalance, Some DivisionByZero, Some InvalidOperation}
      \<longrightarrow> snd (Unwrap_part001 to a s) = s)
   \<and> (fst (Claim from to a s) \<in> {Some InsufficientBalance, Some DivisionByZero, Some InvalidOperation}
      \<longrightarrow> snd (Claim from to a s) = s)
   \<and> (fst (Rebase (ActDividend v) t) \<in> {Some InsufficientBalance, Some DivisionByZero, Some InvalidOperation}
      \<longrightarrow> snd (Rebase (ActDividend v) t) = t)"
  using Transfer_refused [of "from" to a s] Interact_transfer_refused [of to "from" a s]
    Wrap_refused [of "from" a s] Unwrap_refused [of "from" a s]
    Unwrap_part001_refused [of to a s] Claim_refused [of "from" to a s]
    Rebase_refused [of "ActDividend v" t]
  by blast

text \<open>
  One refused call of each kind, on the ledgers \<^verbatim>\<open>main\<close> has after its call of
  \<^verbatim>\<open>Interact\<close>.
\<close>

theorem refused_call_changes_nothing_witness:
  "Transfer ''0xREECE'' ''0xCONTRACT'' 1 demo_interacted = (Some InsufficientBalance, demo_interacted)
   \<and> \<not> prefix ''0xCONTRACT'' ''0xBOB''
   \<and> Interact ''0xREECE'' ''0xBOB'' 6000000 demo_interacted = (Some InsufficientBalance, demo_interacted)
   \<and> Wrap ''0xREECE'' 6000000 demo_interacted = (Some InsufficientBalance, demo_interacted)
   \<and> Unwrap ''0xREECE'' 1 demo_interacted = (Some InsufficientBalance, demo_interacted)
   \<and> Unwrap_part001 ''0xREECE'' 6000000 demo_interacted = (Some InsufficientBalance, demo_interacted)
   \<and> Claim ''0xREECE'' ''0xREECE'' 1 demo_interacted = (Some InvalidOperation, demo_interacted)
   \<and> Rebase (ActDividend \<lparr>cashAmount = 150, sharePrice = 0\<rparr>) (fst demo_interacted)
       = (Some DivisionByZero, fst demo_interacted)"
proof -
  have e1: "fst (Transfer ''0xREECE'' ''0xCONTRACT'' 1 demo_interacted) = Some InsufficientBalance"
    and e2: "fst (Interact ''0xREECE'' ''0xBOB'' 6000000 demo_interacted) = Some InsufficientBalance"
    and e3: "fst (Wrap ''0xREECE'' 6000000 demo_interacted) = Some InsufficientBalance"
    and e4: "fst (Unwrap ''0xREECE'' 1 demo_interacted) = Some InsufficientBalance"
    and e5: "fst (Unwrap_part001 ''0xREECE'' 6000000 demo_interacted) = Some InsufficientBalance"
    and e6: "fst (Claim ''0xREECE'' ''0xREECE'' 1 demo_interacted) = Some InvalidOperation"
    and e7: "fst (Rebase (ActDividend \<lparr>cashAmount = 150, sharePrice = 0\<rparr>) (fst demo_interacted))
       = Some DivisionByZero"
    and np: "\<not> prefix ''0xCONTRACT'' ''0xBOB''"
    by (simp_all add: demo_interacted_eval Transfer_def Interact_def Wrap_def Unwrap_def
        Unwrap_part001_def Claim_def contractAddr_def big_Div_def)
  note T = refused_call_changes_nothing [of "''0xREECE''" _ _ demo_interacted]
  from T [of "''0xCONTRACT''" 1] e1
  have s1: "snd (Transfer ''0xREECE'' ''0xCONTRACT'' 1 demo_interacted) = demo_interacted"
    by simp
  from T [of "''0xBOB''" 6000000] e2 e3 np
  have s2: "snd (Interact ''0xREECE'' ''0xBOB'' 6000000 demo_interacted) = demo_interacted"
    and s3: "snd (Wrap ''0xREECE'' 6000000 demo_interacted) = demo_interacted"
    by simp_all
  from T [of _ 1] e4
  have s4: "snd (Unwrap ''0xREECE'' 1 demo_interacted) = demo_interacted"
    by simp
  from T [of "''0xREECE''" 6000000] e5
  have s5: "snd (Unwrap_part001 ''0xREECE'' 6000000 demo_interacted) = demo_interacted"
    by simp
  from T [of "''0xREECE''" 1] e6
  have s6: "snd (Claim ''0xREECE'' ''0xREECE'' 1 demo_interacted) = demo_interacted"
    by simp
  from T [of _ _ "\<lparr>cashAmount = 150, sharePrice = 0\<rparr>" "fst demo_interacted"] e7
  have s7: "snd (Rebase (ActDividend \<lparr>cashAmount = 150, sharePrice = 0\<rparr>) (fst demo_interacted))
       = fst demo_interacted"
    by simp
  show ?thesis
    using e1 e2 e3 e4 e5 e6 e7 np s1 s2 s3 s4 s5 s6 s7
    by (simp only: prod_eq_iff fst_conv snd_conv simp_thms)
qed

section \<open>The dispatch of Interact\<close>











section \<open>Stock splits\<close>

lemma sint_small: "uint (v :: 64 word) < 2 ^ 63 \<Longrightarrow> sint v = uint v"
proof -
  assume "uint v < 2 ^ 63"
  moreover have "- (2 ^ 63) \<le> uint v"
    by (rule order_trans [of _ 0]) simp_all
  ultimately have "signed_take_bit 63 (uint v) = uint v"
    by (rule signed_take_bit_int_eq_self [rotated])
  then show ?thesis by (simp add: sint_uint)
qed

text \<open>
  A multiplier below \<open>2^63\<close> multiplies every entry exactly, is recorded as the rebase
  multiplier and leaves the total supply alone.
\<close>

lemma Rebase_split_exact:
  assumes "uint v < 2 ^ 63"
  shows "Rebase (ActUint64 v) t =
     (None, t\<lparr>st_balances := (\<lambda>address. map_option (\<lambda>balance. balance * uint v) (st_balances t address)),
              rebaseMultiplier := uint v\<rparr>)"
  by (simp add: sint_small [OF assms] Let_def)

text \<open>
  C8. \<^verbatim>\<open>Rebase\<close> turns its \<^verbatim>\<open>uint64\<close> multiplier into \<^verbatim>\<open>int64\<close> before building the
  \<^verbatim>\<open>big.Int\<close>. For the multiplier \<open>2^63\<close> the ten shares of \<^verbatim>\<open>0xREECE\<close> are
  multiplied by \<open>- 2^63\<close>, which is also what the rebase multiplier records.
\<close>

theorem Rebase_split_int64_overflow:
  "fst (Rebase (ActUint64 9223372036854775808) (fst demo_minted)) = None
   \<and> st_balances (fst demo_minted) ''0xREECE'' = Some 10000000
   \<and> st_balances (snd (Rebase (ActUint64 9223372036854775808) (fst demo_minted))) ''0xREECE''
       = Some (- 92233720368547758080000000)
   \<and> st_balances (snd (Rebase (ActUint64 9223372036854775808) (fst demo_minted))) ''0xREECE''
       \<noteq> Some (9223372036854775808 * 10000000)
   \<and> rebaseMultiplier (snd (Rebase (ActUint64 9223372036854775808) (fst demo_minted)))
       = - 9223372036854775808"
  by (simp add: demo_minted_eval Let_def)

section \<open>Addresses without an entry\<close>

text \<open>
  A debit from an address that has no entry reads a nil \<^verbatim>\<open>*big.Int\<close>: the comparison
  with the amount panics before the balance check, whatever the amount.
\<close>

lemma debit_absent_sender:
  "st_balances (fst s) from = None \<Longrightarrow> Wrap from a s = (Some NilDereference, s)"
  "st_balances (fst s) from = None \<Longrightarrow> \<not> prefix ''0xCONTRACT'' to \<Longrightarrow>
     Interact from to a s = (Some NilDereference, s)"
  "ow_balances (snd s) from = None \<Longrightarrow> Transfer from to a s = (Some NilDereference, s)"
  "ow_balances (snd s) from = None \<Longrightarrow> Unwrap from a s = (Some NilDereference, s)"
  by (cases s; simp add: Wrap_def Interact_def Transfer_def Unwrap_def)+

text \<open>
  C9. \<^verbatim>\<open>0xBOB\<close> was never credited in either ledger. Debiting one raw unit from it
  panics on the nil entry instead of reporting an insufficient balance, in \<^verbatim>\<open>Wrap\<close>,
  in the plain transfer of \<^verbatim>\<open>Interact\<close>, in the wrapper's \<^verbatim>\<open>Transfer\<close> and in
  \<^verbatim>\<open>Unwrap\<close> of \<^verbatim>\<open>src/main.go\<close>; debiting nothing panics in the same way instead of
  succeeding.
\<close>

theorem debit_never_credited_address:
  "st_balances (fst demo_interacted) ''0xBOB'' = None
   \<and> ow_balances (snd demo_interacted) ''0xBOB'' = None
   \<and> Wrap ''0xBOB'' 1 demo_interacted = (Some NilDereference, demo_interacted)
   \<and> Interact ''0xBOB'' ''0xREECE'' 1 demo_interacted = (Some NilDereference, demo_interacted)
   \<and> Transfer ''0xBOB'' ''0xREECE'' 1 demo_interacted = (Some NilDereference, demo_interacted)
   \<and> Unwrap ''0xBOB'' 1 demo_interacted = (Some NilDereference, demo_interacted)
   \<and> Wrap ''0xBOB'' 0 demo_interacted = (Some NilDereference, demo_interacted)
   \<and> Interact ''0xBOB'' ''0xREECE'' 0 demo_interacted = (Some NilDereference, demo_interacted)
   \<and> Transfer ''0xBOB'' ''0xREECE'' 0 demo_interacted = (Some NilDereference, demo_interacted)
   \<and> Unwrap ''0xBOB'' 0 demo_interacted = (Some NilDereference, demo_interacted)"
proof -
  have st: "st_balances (fst demo_interacted) ''0xBOB'' = None"
    and ow: "ow_balances (snd demo_interacted) ''0xBOB'' = None"
    and np: "\<not> prefix ''0xCONTRACT'' ''0xREECE''"
    by (simp_all add: demo_interacted_eval)
  from st ow np show ?thesis by (simp add: debit_absent_sender)
qed

section \<open>Unwrap\<close>

text \<open>
  When the holder has a wrapped entry and the rebasing ledger has entries for the custody
  address and for the holder, \<^verbatim>\<open>Unwrap\<close> of \<^verbatim>\<open>src/main.go\<close> is what the specification
  describes.
\<close>

lemma Unwrap_entries_present:
  assumes "ow_balances ow from = Some wb" and "st_balances st (ow_ticker ow) = Some c"
    and "st_balances st from = Some b"
  shows "Unwrap from w (st, ow) =
     (if wb < w then (Some InsufficientBalance, st, ow)
      else (None,
            st\<lparr>st_balances :=
                 (let u = w * exchangeRate ow div basePrecision;
                      m = (st_balances st)(ow_ticker ow \<mapsto> c - u)
                  in m(from \<mapsto> orZero m from + u))\<rparr>,
            ow\<lparr>ow_balances := (ow_balances ow)(from \<mapsto> wb - w),
               ow_totalSupply := ow_totalSupply ow - w\<rparr>))"
  using assms basePrecision_pos
  by (auto simp add: Unwrap_def Let_def orZero_def big_quot_def)

text \<open>
  The revision with \<^verbatim>\<open>Claim\<close> burns from \<^verbatim>\<open>0xCONTRACT\<close> and creates the recipient's
  entry when it is missing.
\<close>

lemma Unwrap_part001_entries_present:
  assumes "ow_balances ow ''0xCONTRACT'' = Some wb" and "st_balances st (ow_ticker ow) = Some c"
  shows "Unwrap_part001 to w (st, ow) =
     (if wb < w then (Some InsufficientBalance, st, ow)
      else (None,
            st\<lparr>st_balances :=
                 (let u = w * exchangeRate ow div basePrecision;
                      m = (st_balances st)(ow_ticker ow \<mapsto> c - u)
                  in m(to \<mapsto> orZero m to + u))\<rparr>,
            ow\<lparr>ow_balances := (ow_balances ow)(''0xCONTRACT'' \<mapsto> wb - w),
               ow_totalSupply := ow_totalSupply ow - w\<rparr>))"
  using assms basePrecision_pos
  by (auto simp add: Unwrap_part001_def contractAddr_def Let_def orZero_def big_quot_def)

text \<open>
  C7. After the auto-wrap of \<^verbatim>\<open>main\<close> the address \<^verbatim>\<open>0xCONTRACT\<close> holds five wrapped
  shares and has no entry in the rebasing ledger. \<^verbatim>\<open>Unwrap\<close> of \<^verbatim>\<open>src/main.go\<close> for one
  of them passes the balance check, burns it, debits the custody entry and then panics on
  the holder's nil entry, leaving both writes behind. The revision with \<^verbatim>\<open>Claim\<close>
  completes the same call.
\<close>

theorem Unwrap_recipient_without_entry:
  "ow_balances (snd demo_interacted) ''0xCONTRACT'' = Some 5000000
   \<and> st_balances (fst demo_interacted) ''owTSLA'' = Some 5000000
   \<and> st_balances (fst demo_interacted) ''0xCONTRACT'' = None
   \<and> fst (Unwrap ''0xCONTRACT'' 1000000 demo_interacted) = Some NilDereference
   \<and> ow_balances (snd (snd (Unwrap ''0xCONTRACT'' 1000000 demo_interacted))) ''0xCONTRACT''
       = Some 4000000
   \<and> ow_totalSupply (snd (snd (Unwrap ''0xCONTRACT'' 1000000 demo_interacted))) = 4000000
   \<and> st_balances (fst (snd (Unwrap ''0xCONTRACT'' 1000000 demo_interacted))) ''owTSLA''
       = Some 4000000
   \<and> st_balances (fst (snd (Unwrap ''0xCONTRACT'' 1000000 demo_interacted))) ''0xCONTRACT''
       = None
   \<and> fst (Unwrap_part001 ''0xCONTRACT'' 1000000 demo_interacted) = None
   \<and> st_balances (fst (snd (Unwrap_part001 ''0xCONTRACT'' 1000000 demo_interacted))) ''0xCONTRACT''
       = Some 1000000"
  by (simp add: demo_interacted_eval Unwrap_def Unwrap_part001_def contractAddr_def big_quot_def
      basePrecision_def orZero_def Let_def)

section \<open>Claim\<close>

text \<open>
  A claim from \<^verbatim>\<open>0xCONTRACT\<close> itself, when that address has a wrapped entry and the
  custody entry exists, never fails and unwraps the smaller of the request and the
  balance.
\<close>

lemma Claim_clamps:
  assumes "ow_balances ow ''0xCONTRACT'' = Some wb" and "st_balances st (ow_ticker ow) = Some c"
  shows "Claim ''0xCONTRACT'' to w (st, ow) =
     (None,
      st\<lparr>st_balances :=
           (let u = min wb w * exchangeRate ow div basePrecision;
                m = (st_balances st)(ow_ticker ow \<mapsto> c - u)
            in m(to \<mapsto> orZero m to + u))\<rparr>,
      ow\<lparr>ow_balances := (ow_balances ow)(''0xCONTRACT'' \<mapsto> wb - min wb w),
         ow_totalSupply := ow_totalSupply ow - min wb w\<rparr>)"
  using assms
  by (simp add: Claim_def Unwrap_part001_entries_present min_def)

text \<open>
  C4. \<^verbatim>\<open>Claim\<close> tests the source's wrapped entry for nil and then formats that very
  entry, so a claim from a contract address that holds no wrapped entry panics on the nil
  pointer instead of being clamped to nothing. A claim from a second contract address,
  \<^verbatim>\<open>0xCONTRACT_B\<close>, which does hold five wrapped shares, is refused for an insufficient
  balance, because \<^verbatim>\<open>Unwrap\<close> looks at the entry of \<^verbatim>\<open>0xCONTRACT\<close> only.
\<close>

theorem Claim_fails:
  "prefix ''0xCONTRACT'' ''0xCONTRACT''
   \<and> ow_balances (snd demo_minted) ''0xCONTRACT'' = None
   \<and> Claim ''0xCONTRACT'' ''0xREECE'' 1000000 demo_minted = (Some NilDereference, demo_minted)
   \<and> prefix ''0xCONTRACT'' ''0xCONTRACT_B''
   \<and> ow_balances (snd demo_other_contract) ''0xCONTRACT_B'' = Some 5000000
   \<and> Claim ''0xCONTRACT_B'' ''0xREECE'' 1000000 demo_other_contract
       = (Some InsufficientBalance, demo_other_contract)"
  by (simp add: demo_other_contract_def)
    (simp add: demo_minted_eval Claim_def Unwrap_part001_def contractAddr_def Interact_def
      Wrap_def Transfer_def big_Div_def big_quot_def basePrecision_def orZero_def Let_def)

section \<open>The exchange rate\<close>










section \<open>The supply of the wrapper\<close>








section \<open>Arithmetic of the backing\<close>








section \<open>Well-behaved calls keep the wrapper backed\<close>


lemma orZero_map_option:
  "orZero (\<lambda>a. map_option f (m a)) k = (case m k of None \<Rightarrow> 0 | Some b \<Rightarrow> f b)"
  by (simp add: orZero_def split: option.splits)































end
